theory Spec2Isabelle
  imports Main "HOL-Library.Word"
begin

unbundle bit_operations_syntax

section \<open>The lambda-argument value model of LambdaArgument.h\<close>

text \<open>
  The embedding follows \<^verbatim>\<open>concretelang/Support/LambdaArgument.h\<close>. Machine integers are
  words: \<^verbatim>\<open>int\<close> and \<^verbatim>\<open>unsigned int\<close> are 32 bits wide, \<^verbatim>\<open>size_t\<close> and
  \<^verbatim>\<open>int64_t\<close> are 64 bits wide (the LP64 data model). A backing integer type of
  \<open>n\<close> bits is \<open>'a word\<close> with \<open>LENGTH('a) = n\<close>; a signed backing type has the same
  bit patterns, read by \<open>sint\<close>.

  Operations whose behaviour C++ leaves undefined (a division by zero, a shift by at
  least the width of the shifted type) and the failed assertion of the type-name
  resolver are results of the model, next to the \<^verbatim>\<open>llvm::Error\<close> that the source
  returns on purpose.
\<close>

datatype error =
    DivisionByZero
  | ShiftOutOfRange
  | Overflow nat nat
  | NoNameImplemented

text \<open>
  \<open>DivisionByZero\<close> and \<open>ShiftOutOfRange\<close> stand for undefined behaviour.
  \<open>Overflow a f\<close> is the error of \<^verbatim>\<open>safeUnsignedMul\<close>, whose message
  \<^verbatim>\<open>"Multiplying value " << accu << " with " << factor << " would cause an overflow"\<close>
  prints the two operands \<open>a\<close> and \<open>f\<close>. \<open>NoNameImplemented\<close> is the
  \<^verbatim>\<open>assert(false && "No name implemented for this lambda argument type")\<close>.
\<close>

subsection \<open>Integer operations of the language\<close>

definition numeric_limits_max :: "'a::len word" where
  "numeric_limits_max = - 1"

definition unsigned_div :: "'a::len word \<Rightarrow> 'a word \<Rightarrow> error + 'a word" where
  "unsigned_div a b = (if b = 0 then Inl DivisionByZero else Inr (a div b))"

definition shl_int :: "32 word \<Rightarrow> 32 word \<Rightarrow> error + 32 word" where
  "shl_int x n = (if 32 \<le> unat n then Inl ShiftOutOfRange else Inr (push_bit (unat n) x))"

text \<open>
  \<open>unsigned_div\<close> is \<^verbatim>\<open>a / b\<close> on an unsigned type. \<open>shl_int x n\<close> is \<^verbatim>\<open>x << n\<close>
  for an \<^verbatim>\<open>int\<close> \<open>x\<close> and an \<^verbatim>\<open>unsigned int\<close> count \<open>n\<close>: undefined for a count of
  32 or more, and otherwise the shifted bit pattern in two's complement (so
  \<^verbatim>\<open>1 << 31\<close> is \<^verbatim>\<open>INT_MIN\<close>, as the compilers of the project give it).
\<close>

subsection \<open>IntLambdaArgument\<close>

record (overloaded) 'a IntLambdaArgument =
  precision :: "32 word"
  int_value :: "'a word"

text \<open>
  The constructor \<^verbatim>\<open>IntLambdaArgument(BackingIntType value, unsigned int precision)\<close>:
  \<^verbatim>\<open>
  if (precision < 8 * sizeof(BackingIntType)) {
    this->value = value & (1 << (this->precision - 1));
  } else {
    this->value = value;
  }\<close>
  \<^verbatim>\<open>this->precision - 1\<close> is computed in \<^verbatim>\<open>unsigned int\<close> and wraps at 0; the literal
  \<^verbatim>\<open>1\<close> is an \<^verbatim>\<open>int\<close>. The \<^verbatim>\<open>int\<close> mask is converted to the backing type for
  \<^verbatim>\<open>&\<close> (or the narrower value is promoted to \<^verbatim>\<open>int\<close> and the result converted back):
  on the bits kept, both are the sign-extending or truncating cast \<open>scast\<close>.
\<close>

definition IntLambdaArgument_new ::
  "'a::len word \<Rightarrow> 32 word \<Rightarrow> error + 'a IntLambdaArgument" where
  "IntLambdaArgument_new v p =
     (if unat p < LENGTH('a) then
        (case shl_int 1 (p - 1) of
           Inl e \<Rightarrow> Inl e
         | Inr m \<Rightarrow> Inr \<lparr>precision = p, int_value = v AND scast m\<rparr>)
      else Inr \<lparr>precision = p, int_value = v\<rparr>)"

definition getPrecision :: "'a::len IntLambdaArgument \<Rightarrow> 32 word" where
  "getPrecision a = precision a"

definition getValue :: "'a::len IntLambdaArgument \<Rightarrow> 'a word" where
  "getValue a = int_value a"

subsection \<open>safeUnsignedMul\<close>

text \<open>
  \<^verbatim>\<open>
  const AccuT left = std::numeric_limits<AccuT>::max() / accu;
  if (left > factor) {
    accu *= factor;
    return llvm::Error::success();
  }
  return StreamStringError("Multiplying value ") << accu << " with " << factor
         << " would cause an overflow";\<close>
  The accumulator is passed by reference: the model returns its new value. Both types
  are unsigned, so \<^verbatim>\<open>left > factor\<close> compares the two numbers.
\<close>

definition safeUnsignedMul :: "'a::len word \<Rightarrow> 'b::len word \<Rightarrow> error + 'a word" where
  "safeUnsignedMul accu factor =
     (case unsigned_div numeric_limits_max accu of
        Inl e \<Rightarrow> Inl e
      | Inr left \<Rightarrow>
          if unat factor < unat left then Inr (accu * ucast factor)
          else Inl (Overflow (unat accu) (unat factor)))"

subsection \<open>TensorLambdaArgument\<close>

record 'a TensorLambdaArgument =
  tensor_value :: "'a list"
  dimensions :: "64 word list"

text \<open>
  \<^verbatim>\<open>std::copy(value.begin(), value.end(), std::back_inserter(this->value))\<close> appends
  the elements one by one to the (initially empty) vector of the new object.
\<close>

fun copy_back_inserter :: "'a list \<Rightarrow> 'a list \<Rightarrow> 'a list" where
  "copy_back_inserter [] dst = dst"
| "copy_back_inserter (x # xs) dst = copy_back_inserter xs (dst @ [x])"

definition TensorLambdaArgument_copy ::
  "'a list \<Rightarrow> 64 word list \<Rightarrow> 'a TensorLambdaArgument" where
  "TensorLambdaArgument_copy v dims =
     \<lparr>tensor_value = copy_back_inserter v [], dimensions = dims\<rparr>"

definition TensorLambdaArgument_move ::
  "'a list \<Rightarrow> 64 word list \<Rightarrow> 'a TensorLambdaArgument" where
  "TensorLambdaArgument_move v dims = \<lparr>tensor_value = v, dimensions = dims\<rparr>"

definition TensorLambdaArgument_1d :: "'a list \<Rightarrow> 'a TensorLambdaArgument" where
  "TensorLambdaArgument_1d v = TensorLambdaArgument_copy v [word_of_nat (length v)]"

definition getDimensions :: "'a TensorLambdaArgument \<Rightarrow> 64 word list" where
  "getDimensions t = dimensions t"

text \<open>
  \<^verbatim>\<open>
  size_t accu = 1;
  for (unsigned int dimSize : dimensions)
    if (llvm::Error err = safeUnsignedMul(accu, dimSize))
      return std::move(err);
  return accu;\<close>
  Each \<^verbatim>\<open>int64_t\<close> dimension is converted to the \<^verbatim>\<open>unsigned int\<close> loop variable,
  which keeps its low 32 bits (\<open>ucast\<close>).
\<close>

fun getNumElements_loop :: "64 word \<Rightarrow> 64 word list \<Rightarrow> error + 64 word" where
  "getNumElements_loop accu [] = Inr accu"
| "getNumElements_loop accu (d # ds) =
     (case safeUnsignedMul accu (ucast d :: 32 word) of
        Inl err \<Rightarrow> Inl err
      | Inr accu' \<Rightarrow> getNumElements_loop accu' ds)"

definition getNumElements :: "'a TensorLambdaArgument \<Rightarrow> error + 64 word" where
  "getNumElements t = getNumElements_loop 1 (dimensions t)"

text \<open>
  \<^verbatim>\<open>
  if (getDimensions() != other.getDimensions())
    return false;
  for (auto pair : llvm::zip(value, other.value)) {
    if (std::get<0>(pair) != std::get<1>(pair))
      return false;
  }
  return true;\<close>
  \<^verbatim>\<open>llvm::zip\<close> stops at the end of the shorter range, as \<open>zip\<close> does.
\<close>

fun zip_loop :: "('a \<times> 'a) list \<Rightarrow> bool" where
  "zip_loop [] = True"
| "zip_loop ((x, y) # ps) = (if x \<noteq> y then False else zip_loop ps)"

definition TensorLambdaArgument_eq ::
  "'a TensorLambdaArgument \<Rightarrow> 'a TensorLambdaArgument \<Rightarrow> bool" where
  "TensorLambdaArgument_eq t other =
     (if getDimensions t \<noteq> getDimensions other then False
      else zip_loop (zip (tensor_value t) (tensor_value other)))"

text \<open>
  The shape invariant of the data model, \<^verbatim>\<open>value.length == product(dimensions)\<close>,
  with the dimensions read as signed 64-bit numbers.
\<close>

definition length_matches_shape :: "'a TensorLambdaArgument \<Rightarrow> bool" where
  "length_matches_shape t =
     (int (length (tensor_value t)) = prod_list (map sint (dimensions t)))"

subsection \<open>The class hierarchy and dynamic casts\<close>

datatype FundamentalType =
  int8_t | uint8_t | int16_t | uint16_t | int32_t | uint32_t | int64_t | uint64_t

fun NameOfFundamentalType :: "FundamentalType \<Rightarrow> string" where
  "NameOfFundamentalType uint8_t = ''uint8_t''"
| "NameOfFundamentalType int8_t = ''int8_t''"
| "NameOfFundamentalType uint16_t = ''uint16_t''"
| "NameOfFundamentalType int16_t = ''int16_t''"
| "NameOfFundamentalType uint32_t = ''uint32_t''"
| "NameOfFundamentalType int32_t = ''int32_t''"
| "NameOfFundamentalType uint64_t = ''uint64_t''"
| "NameOfFundamentalType int64_t = ''int64_t''"

text \<open>
  Every class of the hierarchy has its own \<^verbatim>\<open>static char ID\<close>, one per template
  instance; \<open>class_id\<close> is the address \<^verbatim>\<open>&ID\<close>. \<open>TensorLambdaArgument_Int_ID T\<close> is
  the identity of \<^verbatim>\<open>TensorLambdaArgument<IntLambdaArgument<T>>\<close> and
  \<open>TensorLambdaArgument_EInt_ID T\<close> that of
  \<^verbatim>\<open>TensorLambdaArgument<EIntLambdaArgument<T>>\<close>.
\<close>

datatype class_id =
    RTTIRoot_ID
  | LambdaArgument_ID
  | IntLambdaArgument_ID FundamentalType
  | EIntLambdaArgument_ID FundamentalType
  | TensorLambdaArgument_Int_ID FundamentalType
  | TensorLambdaArgument_EInt_ID FundamentalType

text \<open>
  A class declared as \<^verbatim>\<open>llvm::RTTIExtends<ThisT, ParentT>\<close> answers
  \<^verbatim>\<open>isA(ClassID)\<close> with \<^verbatim>\<open>ClassID == classID() || ParentT::isA(ClassID)\<close>. The
  parents are those of the class declarations: \<^verbatim>\<open>LambdaArgument\<close> extends
  \<^verbatim>\<open>RTTIRoot\<close>, \<^verbatim>\<open>IntLambdaArgument<T>\<close> and \<^verbatim>\<open>TensorLambdaArgument<S>\<close> extend
  \<^verbatim>\<open>LambdaArgument\<close>, and \<^verbatim>\<open>EIntLambdaArgument<T>\<close> extends
  \<^verbatim>\<open>IntLambdaArgument<T>\<close>.
\<close>

definition RTTIRoot_isA :: "class_id \<Rightarrow> bool" where
  "RTTIRoot_isA ClassID = (ClassID = RTTIRoot_ID)"

definition LambdaArgument_isA :: "class_id \<Rightarrow> bool" where
  "LambdaArgument_isA ClassID = (ClassID = LambdaArgument_ID \<or> RTTIRoot_isA ClassID)"

definition IntLambdaArgument_isA :: "FundamentalType \<Rightarrow> class_id \<Rightarrow> bool" where
  "IntLambdaArgument_isA T ClassID =
     (ClassID = IntLambdaArgument_ID T \<or> LambdaArgument_isA ClassID)"

definition EIntLambdaArgument_isA :: "FundamentalType \<Rightarrow> class_id \<Rightarrow> bool" where
  "EIntLambdaArgument_isA T ClassID =
     (ClassID = EIntLambdaArgument_ID T \<or> IntLambdaArgument_isA T ClassID)"

definition TensorLambdaArgument_Int_isA :: "FundamentalType \<Rightarrow> class_id \<Rightarrow> bool" where
  "TensorLambdaArgument_Int_isA T ClassID =
     (ClassID = TensorLambdaArgument_Int_ID T \<or> LambdaArgument_isA ClassID)"

definition TensorLambdaArgument_EInt_isA :: "FundamentalType \<Rightarrow> class_id \<Rightarrow> bool" where
  "TensorLambdaArgument_EInt_isA T ClassID =
     (ClassID = TensorLambdaArgument_EInt_ID T \<or> LambdaArgument_isA ClassID)"

text \<open>
  An object seen through a \<^verbatim>\<open>LambdaArgument\<close> reference: the class it was created
  as, and its fields. The virtual \<^verbatim>\<open>isA\<close> is that of the object's own class.
\<close>

record 'p LambdaArgument =
  dynamicClassID :: class_id
  payload :: 'p

fun isA_of :: "class_id \<Rightarrow> class_id \<Rightarrow> bool" where
  "isA_of RTTIRoot_ID ClassID = RTTIRoot_isA ClassID"
| "isA_of LambdaArgument_ID ClassID = LambdaArgument_isA ClassID"
| "isA_of (IntLambdaArgument_ID T) ClassID = IntLambdaArgument_isA T ClassID"
| "isA_of (EIntLambdaArgument_ID T) ClassID = EIntLambdaArgument_isA T ClassID"
| "isA_of (TensorLambdaArgument_Int_ID T) ClassID = TensorLambdaArgument_Int_isA T ClassID"
| "isA_of (TensorLambdaArgument_EInt_ID T) ClassID = TensorLambdaArgument_EInt_isA T ClassID"

definition isA :: "'p LambdaArgument \<Rightarrow> class_id \<Rightarrow> bool" where
  "isA arg ClassID = isA_of (dynamicClassID arg) ClassID"

definition dyn_cast :: "class_id \<Rightarrow> 'p LambdaArgument \<Rightarrow> 'p LambdaArgument option" where
  "dyn_cast ClassID arg = (if isA arg ClassID then Some arg else None)"

subsection \<open>Type names\<close>

text \<open>
  \<open>LambdaArgumentTypeName_get Ts\<close> is \<^verbatim>\<open>LambdaArgumentTypeName<Ts...>::get\<close>: the
  four tests on the first type of the list in the order of the source, then the rest of
  the list; the empty list is the failed assertion.
\<close>

fun LambdaArgumentTypeName_get ::
  "FundamentalType list \<Rightarrow> 'p LambdaArgument \<Rightarrow> error + string" where
  "LambdaArgumentTypeName_get [] arg = Inl NoNameImplemented"
| "LambdaArgumentTypeName_get (T # Ts) arg =
     (if dyn_cast (IntLambdaArgument_ID T) arg \<noteq> None then
        Inr (NameOfFundamentalType T)
      else if dyn_cast (EIntLambdaArgument_ID T) arg \<noteq> None then
        Inr (''encrypted '' @ NameOfFundamentalType T)
      else if dyn_cast (TensorLambdaArgument_Int_ID T) arg \<noteq> None then
        Inr (''tensor<'' @ NameOfFundamentalType T @ ''>'')
      else if dyn_cast (TensorLambdaArgument_EInt_ID T) arg \<noteq> None then
        Inr (''tensor<encrypted '' @ NameOfFundamentalType T @ ''>'')
      else LambdaArgumentTypeName_get Ts arg)"

definition getLambdaArgumentTypeAsString :: "'p LambdaArgument \<Rightarrow> error + string" where
  "getLambdaArgumentTypeAsString arg =
     LambdaArgumentTypeName_get
       [int8_t, uint8_t, int16_t, uint16_t, int32_t, uint32_t, int64_t, uint64_t] arg"

section \<open>Properties\<close>

section \<open>Integer facts\<close>

lemma numeric_limits_max_unat:
  "unat (numeric_limits_max :: 'a::len word) = 2 ^ LENGTH('a) - 1"
  unfolding numeric_limits_max_def
  by (simp add: unsigned_minus_1_eq_mask mask_eq_exp_minus_1)

lemma quotient_test_nat:
  fixes a f M :: nat
  assumes "f < M div a"
  shows "a * f < M"
proof -
  from assms have pos: "0 < a" by (cases "a = 0") simp_all
  from assms have "Suc f \<le> M div a" by simp
  then have "a * Suc f \<le> a * (M div a)" by (rule mult_le_mono2)
  also have "\<dots> \<le> M" by simp
  finally show ?thesis using pos by simp
qed

lemma quotient_test_nat_conv:
  fixes a f M :: nat
  assumes "M < a * f"
  shows "\<not> f < M div a"
  using quotient_test_nat [of f M a] assms by auto

lemma unat_ucast_small:
  fixes f :: "'b::len word"
  assumes "unat f < 2 ^ LENGTH('a::len)"
  shows "unat (ucast f :: 'a word) = unat f"
  using assms by (simp add: unsigned_ucast_eq take_bit_nat_eq_self)

lemma scast_single_bit:
  assumes "k < 31" and "k < LENGTH('a::len)"
  shows "(scast (2 ^ k :: 32 word) :: 'a word) = 2 ^ k"
proof (rule bit_word_eqI)
  fix n
  assume "n < LENGTH('a)"
  with assms show "bit (scast (2 ^ k :: 32 word) :: 'a word) n \<longleftrightarrow> bit (2 ^ k :: 'a word) n"
    by (auto simp: bit_signed_iff bit_exp_iff min_def not_le)
qed

section \<open>The scalar constructor\<close>

text \<open>
  For a precision between 1 and 31 that is below the backing width, the constructor
  keeps bit \<open>precision - 1\<close> of the value and clears every other bit.
\<close>

lemma IntLambdaArgument_new_single_bit:
  fixes v :: "'a::len word"
  assumes "0 < unat p" and "unat p < LENGTH('a)" and "unat p \<le> 31"
  shows "IntLambdaArgument_new v p =
           Inr \<lparr>precision = p, int_value = v AND 2 ^ (unat p - 1)\<rparr>"
proof -
  from assms(1) have "p \<noteq> 0" by auto
  then have s: "unat (p - 1) = unat p - 1"
    by (simp add: unat_minus_one)
  with assms have "unat (p - 1) < 31" "unat (p - 1) < LENGTH('a)" by simp_all
  then show ?thesis
    using assms(2) by (simp add: IntLambdaArgument_new_def shl_int_def scast_single_bit s)
qed

lemma IntLambdaArgument_new_full_width:
  fixes v :: "'a::len word"
  assumes "LENGTH('a) \<le> unat p"
  shows "IntLambdaArgument_new v p = Inr \<lparr>precision = p, int_value = v\<rparr>"
  using assms by (simp add: IntLambdaArgument_new_def)

lemma IntLambdaArgument_new_precision_0:
  "IntLambdaArgument_new (v :: 'a::len word) 0 = Inl ShiftOutOfRange"
  by (simp add: IntLambdaArgument_new_def shl_int_def
      unsigned_minus_1_eq_mask mask_eq_exp_minus_1)

text \<open>
  C1. A scalar constructed with a precision below the backing width is said to keep
  the low \<open>precision\<close> bits of the raw value: 8-bit backing, precision 4 and raw value
  \<open>0b11110101\<close> should store \<open>0b00000101\<close>. The constructor computes
  \<^verbatim>\<open>value & (1 << (precision - 1))\<close>, that is \<open>245 AND 8\<close>, and stores 0; the low-bit
  mask \<open>mask 4\<close> would give 5.
\<close>

theorem IntLambdaArgument_new_example_stores_0:
  "IntLambdaArgument_new (0xF5 :: 8 word) 4 = Inr \<lparr>precision = 4, int_value = 0\<rparr> \<and>
   getValue \<lparr>precision = 4, int_value = 0 :: 8 word\<rparr> = 0 \<and>
   (0xF5 AND mask 4 :: 8 word) = 5"
  by (simp add: IntLambdaArgument_new_def shl_int_def getValue_def mask_eq_exp_minus_1)

section \<open>The checked multiplication\<close>

lemma safeUnsignedMul_unfold:
  "safeUnsignedMul (accu :: 'a::len word) (factor :: 'b::len word) =
     (if accu = 0 then Inl DivisionByZero
      else if unat factor < (2 ^ LENGTH('a) - 1) div unat accu then Inr (accu * ucast factor)
      else Inl (Overflow (unat accu) (unat factor)))"
  by (simp add: safeUnsignedMul_def unsigned_div_def unat_div numeric_limits_max_unat)

text \<open>A multiplication that succeeds is exact: it never wraps.\<close>

lemma safeUnsignedMul_Inr_exact:
  fixes accu :: "'a::len word" and factor :: "'b::len word"
  assumes "safeUnsignedMul accu factor = Inr r"
  shows "unat r = unat accu * unat factor"
proof -
  from assms have nz: "accu \<noteq> 0"
    and lt: "unat factor < (2 ^ LENGTH('a) - 1) div unat accu"
    and r: "r = accu * ucast factor"
    by (auto simp: safeUnsignedMul_unfold split: if_splits)
  from lt have prod: "unat accu * unat factor < 2 ^ LENGTH('a) - 1"
    by (rule quotient_test_nat)
  have "(2 ^ LENGTH('a) - 1) div unat accu \<le> (2 ^ LENGTH('a) - 1 :: nat)"
    by (rule div_le_dividend)
  with lt have "unat factor < (2 ^ LENGTH('a) - 1 :: nat)"
    by (rule less_le_trans)
  then have "unat factor < 2 ^ LENGTH('a)" by arith
  then have "unat (ucast factor :: 'a word) = unat factor"
    by (rule unat_ucast_small)
  with prod show ?thesis
    by (simp add: r unat_word_ariths)
qed

lemma safeUnsignedMul_by_zero:
  fixes accu :: "'a::len word"
  assumes "accu \<noteq> 0"
  shows "safeUnsignedMul accu (0 :: 'b::len word) = Inr 0"
proof -
  have "unat accu < 2 ^ LENGTH('a)"
    by (rule unsigned_less)
  then have "unat accu \<le> 2 ^ LENGTH('a) - 1"
    by arith
  moreover from assms have "0 < unat accu"
    by (simp add: unat_gt_0)
  ultimately have "0 < (2 ^ LENGTH('a) - 1) div unat accu"
    by (simp add: div_greater_zero_iff)
  with assms show ?thesis
    by (simp add: safeUnsignedMul_unfold)
qed

text \<open>
  C3. A zero accumulator is said to be special-cased before the quotient test, so that
  the multiplication returns the product 0 and never divides by zero. The source has
  no such case: \<^verbatim>\<open>std::numeric_limits<AccuT>::max() / accu\<close> is its first statement,
  and with \<^verbatim>\<open>accu == 0\<close> it divides by zero, for every factor.
\<close>

theorem safeUnsignedMul_zero_accu_divides_by_zero:
  "safeUnsignedMul (0 :: 'a::len word) (factor :: 'b::len word) = Inl DivisionByZero"
  by (simp add: safeUnsignedMul_def unsigned_div_def)

text \<open>
  C6. Whenever the exact product fits the accumulator's type the multiplication is
  said to succeed with that product. The test \<^verbatim>\<open>left > factor\<close> is strict: with the
  64-bit accumulator \<open>2 ^ 63\<close> and the factor 1 the quotient \<open>left\<close> is 1, the test
  fails and the overflow error is returned, though the product \<open>2 ^ 63\<close> fits.
\<close>

theorem safeUnsignedMul_rejects_fitting_product:
  "unat (0x8000000000000000 :: 64 word) * unat (1 :: 32 word) \<le> 2 ^ 64 - 1 \<and>
   safeUnsignedMul (0x8000000000000000 :: 64 word) (1 :: 32 word) =
     Inl (Overflow 9223372036854775808 1)"
  by (simp add: safeUnsignedMul_unfold)

text \<open>
  C7. For every accumulator \<open>a \<ge> 1\<close> and factor \<open>f\<close> whose exact product exceeds the
  largest value of the accumulator's type, the multiplication returns the overflow
  error naming both operands; it returns no product, wrapped or not.
\<close>

theorem safeUnsignedMul_overflow_is_error:
  fixes accu :: "'a::len word" and factor :: "'b::len word"
  assumes "1 \<le> unat accu" and "2 ^ LENGTH('a) - 1 < unat accu * unat factor"
  shows "safeUnsignedMul accu factor = Inl (Overflow (unat accu) (unat factor)) \<and>
         (\<forall>r. safeUnsignedMul accu factor \<noteq> Inr r)"
proof -
  from assms(1) have "accu \<noteq> 0" by auto
  moreover from assms(2) have "\<not> unat factor < (2 ^ LENGTH('a) - 1) div unat accu"
    by (rule quotient_test_nat_conv)
  ultimately show ?thesis
    by (simp add: safeUnsignedMul_unfold)
qed

theorem safeUnsignedMul_overflow_is_error_witness:
  "safeUnsignedMul (0x8000000000000000 :: 64 word) (2 :: 32 word) =
     Inl (Overflow 9223372036854775808 2)"
  using safeUnsignedMul_overflow_is_error
    [of "0x8000000000000000 :: 64 word" "2 :: 32 word"]
  by simp

section \<open>The element count of a tensor\<close>

lemma getNumElements_loop_append:
  "getNumElements_loop accu (ds @ es) =
     (case getNumElements_loop accu ds of
        Inl err \<Rightarrow> Inl err
      | Inr accu' \<Rightarrow> getNumElements_loop accu' es)"
  by (induction ds arbitrary: accu) (simp_all split: sum.splits)

text \<open>
  A count that is returned is the product of the dimensions as the loop reads them,
  each reduced to its low 32 bits.
\<close>

lemma getNumElements_loop_Inr:
  assumes "getNumElements_loop accu ds = Inr n"
  shows "unat n = unat accu * prod_list (map (\<lambda>d. unat (ucast d :: 32 word)) ds)"
  using assms
proof (induction ds arbitrary: accu)
  case Nil
  then show ?case by simp
next
  case (Cons d ds)
  from Cons.prems obtain accu' where
    step: "safeUnsignedMul accu (ucast d :: 32 word) = Inr accu'" and
    rest: "getNumElements_loop accu' ds = Inr n"
    by (auto split: sum.splits)
  from step have "unat accu' = unat accu * unat (ucast d :: 32 word)"
    by (rule safeUnsignedMul_Inr_exact)
  with Cons.IH [OF rest] show ?case
    by (simp add: mult.assoc)
qed

lemma getNumElements_Inr:
  assumes "getNumElements t = Inr n"
  shows "unat n = prod_list (map (\<lambda>d. unat (ucast d :: 32 word)) (dimensions t))"
  using getNumElements_loop_Inr [of 1 "dimensions t" n] assms
  by (simp add: getNumElements_def)

lemma getNumElements_2_3_4:
  "getNumElements \<lparr>tensor_value = v, dimensions = [2, 3, 4]\<rparr> = Inr 24"
  by (simp add: getNumElements_def safeUnsignedMul_unfold)

lemma getNumElements_0_5:
  "getNumElements \<lparr>tensor_value = v, dimensions = [0, 5]\<rparr> = Inl DivisionByZero"
  by (simp add: getNumElements_def safeUnsignedMul_unfold)

lemma getNumElements_strict_test:
  "getNumElements \<lparr>tensor_value = v, dimensions = [2147483648, 4, 2147483647]\<rparr> =
     Inl (Overflow 8589934592 2147483647)"
  by (simp add: getNumElements_def safeUnsignedMul_unfold)

text \<open>
  C4. A dimension sequence that contains a 0 is said to have the element count 0 with
  no error, whatever the other dimensions are. The loop returns at the first
  multiplication that fails, without reading the dimensions that follow: with three
  dimensions of \<open>2 ^ 31\<close> before the 0 it returns the overflow error of the third
  multiplication, although the element count 0 can be represented.
\<close>

theorem getNumElements_overflow_before_zero:
  "(0 :: 64 word) \<in> set [2147483648, 2147483648, 2147483648, 0] \<and>
   getNumElements
     \<lparr>tensor_value = ([] :: 8 word list),
      dimensions = [2147483648, 2147483648, 2147483648, 0]\<rparr> =
     Inl (Overflow 4611686018427387904 2147483648)"
  by (simp add: getNumElements_def safeUnsignedMul_unfold)

text \<open>
  What the loop does with a final 0 and with an error. When the dimensions before a
  final 0 have a non-zero element count that is returned with no error, the count of
  the whole sequence is 0 with no error. When the dimensions read so far end in the
  overflow error, that error is the result whatever dimensions follow.
\<close>

lemma getNumElements_zero_last:
  "(getNumElements \<lparr>tensor_value = v, dimensions = ds\<rparr> = Inr n \<and> n \<noteq> 0 \<longrightarrow>
      getNumElements \<lparr>tensor_value = v, dimensions = ds @ [0]\<rparr> = Inr 0) \<and>
   (getNumElements \<lparr>tensor_value = v, dimensions = ds\<rparr> = Inl (Overflow a f) \<longrightarrow>
      getNumElements \<lparr>tensor_value = v, dimensions = ds @ es\<rparr> = Inl (Overflow a f))"
  by (simp add: getNumElements_def getNumElements_loop_append safeUnsignedMul_by_zero)

text \<open>
  C5. For non-negative dimensions whose product fits in \<^verbatim>\<open>size_t\<close> the element count
  is said to be that product. The loop variable is an \<^verbatim>\<open>unsigned int\<close>: the single
  dimension \<open>2 ^ 32\<close> is read as 0 and the count returned is 0, not \<open>2 ^ 32\<close>.
\<close>

theorem getNumElements_truncates_dimension:
  "0 \<le> sint (4294967296 :: 64 word) \<and>
   prod_list (map sint [4294967296 :: 64 word]) = 4294967296 \<and>
   getNumElements \<lparr>tensor_value = v, dimensions = [4294967296]\<rparr> = Inr 0"
  by (simp add: getNumElements_def safeUnsignedMul_unfold)

section \<open>Tensor constructors and equality\<close>

lemma copy_back_inserter_append: "copy_back_inserter xs dst = dst @ xs"
  by (induction xs arbitrary: dst) simp_all

lemma zip_loop_same_length:
  assumes "length xs = length ys"
  shows "zip_loop (zip xs ys) \<longleftrightarrow> xs = ys"
  using assms by (induction xs ys rule: list_induct2) simp_all

text \<open>In general the loop compares the two buffers up to the length of the shorter.\<close>

lemma zip_loop_take:
  "zip_loop (zip xs ys) \<longleftrightarrow>
     take (min (length xs) (length ys)) xs = take (min (length xs) (length ys)) ys"
proof (induction xs arbitrary: ys)
  case Nil
  then show ?case by simp
next
  case (Cons x xs)
  then show ?case by (cases ys) auto
qed

text \<open>
  C8. Tensor equality is said to hold exactly when the dimension sequences and the
  element sequences are identical. The element loop runs over \<^verbatim>\<open>llvm::zip\<close>, which
  ends with the shorter buffer: two tensors of dimensions \<open>[2]\<close> with the buffers
  \<open>[1, 2]\<close> and \<open>[1, 2, 3]\<close> compare equal.
\<close>

theorem TensorLambdaArgument_eq_ignores_longer_buffer:
  "TensorLambdaArgument_eq
     \<lparr>tensor_value = [1, 2 :: 8 word], dimensions = [2]\<rparr>
     \<lparr>tensor_value = [1, 2, 3], dimensions = [2]\<rparr> \<and>
   tensor_value \<lparr>tensor_value = [1, 2 :: 8 word], dimensions = [2]\<rparr> \<noteq>
   tensor_value \<lparr>tensor_value = [1, 2, 3 :: 8 word], dimensions = [2]\<rparr>"
  by (simp add: TensorLambdaArgument_eq_def getDimensions_def)

text \<open>
  C8, for tensors whose buffers have the same length whenever their dimension
  sequences are identical (as they have when both buffers are as long as the product
  of the dimensions): equality holds exactly when the dimension sequences are
  identical and the element sequences are identical. With different dimension
  sequences the result is false, whatever the elements are.
\<close>

theorem TensorLambdaArgument_eq_iff:
  assumes "dimensions t = dimensions other \<Longrightarrow>
           length (tensor_value t) = length (tensor_value other)"
  shows "TensorLambdaArgument_eq t other \<longleftrightarrow>
           dimensions t = dimensions other \<and> tensor_value t = tensor_value other"
  using assms
  by (auto simp: TensorLambdaArgument_eq_def getDimensions_def zip_loop_same_length)

theorem TensorLambdaArgument_eq_iff_witness:
  "TensorLambdaArgument_eq
     \<lparr>tensor_value = [1, 2, 3, 4 :: 8 word], dimensions = [2, 2]\<rparr>
     \<lparr>tensor_value = [1, 2, 3, 4], dimensions = [2, 2]\<rparr> \<and>
   \<not> TensorLambdaArgument_eq
     \<lparr>tensor_value = [1, 2, 3, 4 :: 8 word], dimensions = [2, 2]\<rparr>
     \<lparr>tensor_value = [1, 2, 3, 5], dimensions = [2, 2]\<rparr> \<and>
   \<not> TensorLambdaArgument_eq
     \<lparr>tensor_value = [1, 2, 3, 4 :: 8 word], dimensions = [2, 2]\<rparr>
     \<lparr>tensor_value = [1, 2, 3, 4], dimensions = [4]\<rparr>"
  using
    TensorLambdaArgument_eq_iff
      [of "\<lparr>tensor_value = [1, 2, 3, 4 :: 8 word], dimensions = [2, 2]\<rparr>"
          "\<lparr>tensor_value = [1, 2, 3, 4 :: 8 word], dimensions = [2, 2]\<rparr>"]
    TensorLambdaArgument_eq_iff
      [of "\<lparr>tensor_value = [1, 2, 3, 4 :: 8 word], dimensions = [2, 2]\<rparr>"
          "\<lparr>tensor_value = [1, 2, 3, 5 :: 8 word], dimensions = [2, 2]\<rparr>"]
    TensorLambdaArgument_eq_iff
      [of "\<lparr>tensor_value = [1, 2, 3, 4 :: 8 word], dimensions = [2, 2]\<rparr>"
          "\<lparr>tensor_value = [1, 2, 3, 4 :: 8 word], dimensions = [4]\<rparr>"]
  by simp

lemma TensorLambdaArgument_eq_of_shaped:
  assumes "length_matches_shape t" and "length_matches_shape other"
  shows "TensorLambdaArgument_eq t other \<longleftrightarrow>
           dimensions t = dimensions other \<and> tensor_value t = tensor_value other"
  using assms
  by (auto simp: TensorLambdaArgument_eq_def getDimensions_def zip_loop_same_length
      length_matches_shape_def)

text \<open>
  C9. Both constructors are said to establish that the buffer is as long as the
  product of the dimensions. Neither compares the two arguments: the buffer
  \<open>[1, 2, 3]\<close> with the dimensions \<open>[2]\<close> is accepted by both.
\<close>

theorem TensorLambdaArgument_constructors_do_not_check:
  "\<not> length_matches_shape (TensorLambdaArgument_copy [1, 2, 3 :: 8 word] [2]) \<and>
   \<not> length_matches_shape (TensorLambdaArgument_move [1, 2, 3 :: 8 word] [2])"
  by (simp add: TensorLambdaArgument_copy_def TensorLambdaArgument_move_def
      length_matches_shape_def)

text \<open>
  C9, as the constructors work. The copying and the moving constructor build the same
  tensor, with the buffer and the dimensions they are given; it satisfies the
  invariant exactly when the given buffer is as long as the product of the given
  dimensions.
\<close>

theorem TensorLambdaArgument_constructors_keep_arguments:
  "TensorLambdaArgument_copy v dims = \<lparr>tensor_value = v, dimensions = dims\<rparr> \<and>
   TensorLambdaArgument_move v dims = \<lparr>tensor_value = v, dimensions = dims\<rparr> \<and>
   (length_matches_shape (TensorLambdaArgument_copy v dims) \<longleftrightarrow>
      int (length v) = prod_list (map sint dims)) \<and>
   (length_matches_shape (TensorLambdaArgument_move v dims) \<longleftrightarrow>
      int (length v) = prod_list (map sint dims))"
  by (simp add: TensorLambdaArgument_copy_def TensorLambdaArgument_move_def
      copy_back_inserter_append length_matches_shape_def)

section \<open>Dynamic casts and type names\<close>

lemmas isA_defs =
  dyn_cast_def isA_def EIntLambdaArgument_isA_def IntLambdaArgument_isA_def
  TensorLambdaArgument_Int_isA_def TensorLambdaArgument_EInt_isA_def
  LambdaArgument_isA_def RTTIRoot_isA_def




lemma type_name_abstract:
  assumes "dynamicClassID arg = LambdaArgument_ID \<or> dynamicClassID arg = RTTIRoot_ID"
  shows "getLambdaArgumentTypeAsString arg = Inl NoNameImplemented"
  using assms by (auto simp: getLambdaArgumentTypeAsString_def isA_defs)




text \<open>
  C10. For every backing type \<open>T\<close>, an object created as \<^verbatim>\<open>EIntLambdaArgument<T>\<close>
  is also an \<^verbatim>\<open>IntLambdaArgument<T>\<close>: the dynamic cast to either class returns the
  object. The two scalar tests of the resolver both accept it, and the resolver, which
  tests for the plain scalar first, returns the bare name of \<open>T\<close>.
\<close>

theorem EIntLambdaArgument_is_IntLambdaArgument:
  assumes "dynamicClassID arg = EIntLambdaArgument_ID T"
  shows "dyn_cast (IntLambdaArgument_ID T) arg = Some arg \<and>
         dyn_cast (EIntLambdaArgument_ID T) arg = Some arg \<and>
         getLambdaArgumentTypeAsString arg = Inr (NameOfFundamentalType T)"
  using assms by (cases T) (simp_all add: getLambdaArgumentTypeAsString_def isA_defs)

theorem EIntLambdaArgument_is_IntLambdaArgument_witness:
  "dyn_cast (IntLambdaArgument_ID uint32_t)
     \<lparr>dynamicClassID = EIntLambdaArgument_ID uint32_t, payload = ()\<rparr> =
     Some \<lparr>dynamicClassID = EIntLambdaArgument_ID uint32_t, payload = ()\<rparr> \<and>
   dyn_cast (EIntLambdaArgument_ID uint32_t)
     \<lparr>dynamicClassID = EIntLambdaArgument_ID uint32_t, payload = ()\<rparr> =
     Some \<lparr>dynamicClassID = EIntLambdaArgument_ID uint32_t, payload = ()\<rparr> \<and>
   getLambdaArgumentTypeAsString
     \<lparr>dynamicClassID = EIntLambdaArgument_ID uint32_t, payload = ()\<rparr> = Inr ''uint32_t''"
  using EIntLambdaArgument_is_IntLambdaArgument
    [of "\<lparr>dynamicClassID = EIntLambdaArgument_ID uint32_t, payload = ()\<rparr>" uint32_t]
  by simp

end
